theory Spec2Isabelle
  imports Main
begin

section \<open>Python values and library functions used by cli/main.py\<close>

text \<open>
  The command-line front end (\<^verbatim>\<open>cli/main.py\<close>) is embedded command by command: the
  \<^verbatim>\<open>stake\<close> command and the \<^verbatim>\<open>simulate\<close> command. Everything the commands do to
  the outside (ledger agents, the reactor, the file system, the operator's terminal)
  is written out: the world is a record that is passed along, an exception is the
  \<open>Inl\<close> branch of a result, and every call that leaves the process is appended to a
  trace, oldest call first.
\<close>

type_synonym address = string

text \<open>
  A click option without a type is a string or \<^verbatim>\<open>None\<close>; \<^verbatim>\<open>index\<close> can also be
  rebound to an integer by the account listing loop.
\<close>

datatype pyval = PNone | PInt int | PStr string

fun truthy :: "pyval \<Rightarrow> bool" where
  "truthy PNone = False"
| "truthy (PInt i) = (i \<noteq> 0)"
| "truthy (PStr s) = (s \<noteq> [])"

datatype error =
    Abort
  | RuntimeError string
  | NotImplementedError
  | TypeError
  | ValueError
  | IndexError
  | AttributeError
  | FileNotFoundError
  | NameError
  | OtherError string

text \<open>\<^verbatim>\<open>xs[i]\<close> on a Python list: negative indices count from the end, an index out
  of range raises, an index that is not an integer raises a \<^verbatim>\<open>TypeError\<close>.\<close>

definition py_getitem :: "'a list \<Rightarrow> pyval \<Rightarrow> error + 'a" where
  "py_getitem xs i =
     (case i of
        PInt k \<Rightarrow>
          (let n = int (length xs); j = (if k < 0 then n + k else k)
           in if 0 \<le> j \<and> j < n then Inr (xs ! nat j) else Inl IndexError)
      | _ \<Rightarrow> Inl TypeError)"

text \<open>\<^verbatim>\<open>str(n)\<close> for an integer.\<close>

definition digit_char :: "nat \<Rightarrow> char" where
  "digit_char d = ''0123456789'' ! d"

fun str_nat :: "nat \<Rightarrow> string" where
  "str_nat n = (if n < 10 then [digit_char n] else str_nat (n div 10) @ [digit_char (n mod 10)])"

declare str_nat.simps [simp del]

definition str_int :: "int \<Rightarrow> string" where
  "str_int i = (if i < 0 then CHR ''-'' # str_nat (nat (- i)) else str_nat (nat i))"

text \<open>
  \<^verbatim>\<open>template.format(*args)\<close> for templates whose only fields are the automatically
  numbered \<^verbatim>\<open>{}\<close>: each field takes the next positional argument, a field with no
  argument left raises an \<^verbatim>\<open>IndexError\<close>, and positional arguments that no field
  asks for are ignored.
\<close>

fun py_format :: "string \<Rightarrow> string list \<Rightarrow> error + string" where
  "py_format [] args = Inr []"
| "py_format [c] args = Inr [c]"
| "py_format (c # d # t) args =
     (if c = CHR ''{'' \<and> d = CHR ''}'' then
        (case args of
           [] \<Rightarrow> Inl IndexError
         | a # args' \<Rightarrow>
             (case py_format t args' of Inl e \<Rightarrow> Inl e | Inr s \<Rightarrow> Inr (a @ s)))
      else (case py_format (d # t) args of Inl e \<Rightarrow> Inl e | Inr s \<Rightarrow> Inr (c # s)))"

text \<open>\<^verbatim>\<open>s.split()\<close> without a separator: the words between runs of whitespace.\<close>

definition py_isspace :: "char \<Rightarrow> bool" where
  "py_isspace c \<longleftrightarrow>
     c \<in> set [CHR 0x09, CHR 0x0A, CHR 0x0B, CHR 0x0C, CHR 0x0D,
              CHR 0x1C, CHR 0x1D, CHR 0x1E, CHR 0x1F, CHR 0x20, CHR 0x85, CHR 0xA0]"

fun split_from :: "string \<Rightarrow> string \<Rightarrow> string list" where
  "split_from word [] = (if word = [] then [] else [word])"
| "split_from word (c # s) =
     (if py_isspace c then (if word = [] then split_from [] s else word # split_from [] s)
      else split_from (word @ [c]) s)"

definition py_split :: "string \<Rightarrow> string list" where
  "py_split s = split_from [] s"

text \<open>\<^verbatim>\<open>os.path.join\<close> on POSIX paths.\<close>

definition join2 :: "string \<Rightarrow> string \<Rightarrow> string" where
  "join2 path b =
     (if take 1 b = ''/'' then b
      else if path = [] \<or> last path = CHR ''/'' then path @ b
      else path @ ''/'' @ b)"

definition os_path_join :: "string \<Rightarrow> string list \<Rightarrow> string" where
  "os_path_join a p = foldl join2 a p"

section \<open>The world outside the process\<close>

text \<open>
  Modelled from the spec: the ledger agents (\<^verbatim>\<open>MinerAgent\<close>, \<^verbatim>\<open>NucypherTokenAgent\<close>
  of \<^verbatim>\<open>nucypher.blockchain.eth.agents\<close>) and the \<^verbatim>\<open>Miner\<close> actor are not among the
  sources. The ledger is the spec's data model: per address an ordered sequence of
  stakes \<open>{owner, value, start_period, end_period, index}\<close> and a balance, and the
  current period. A deposit commits a stake that starts in the current period and ends
  \<open>duration\<close> periods later; the airdrop funds each listed account with the amount.
\<close>

record stake_info =
  owner :: address
  stake_value :: int
  start_period :: int
  end_period :: int
  stake_index :: nat

record ledger =
  eth_accounts :: "address list"
  stakes :: "address \<Rightarrow> stake_info list"
  balances :: "address \<Rightarrow> int"
  current_period :: int

text \<open>The three contract deployers and the agents they make. A deployer of a later
  contract is constructed from the agent of the earlier one.\<close>

datatype token_agent = NucypherTokenAgent
datatype miner_agent = MinerAgent token_agent
datatype policy_agent = PolicyAgent miner_agent

datatype deployer =
    NucypherTokenDeployer address
  | MinerEscrowDeployer token_agent address "nat list"
  | PolicyManagerDeployer miner_agent address "nat list"

text \<open>Calls that leave the process. \<open>Staged\<close> is the review of the staged stake
  that \<^verbatim>\<open>stake init\<close> prints; other \<^verbatim>\<open>click.echo\<close> output is not recorded.\<close>

datatype event =
    Staged address int int int int
  | DepositTokens int int address
  | ConfirmActivity address
  | DivideStake address pyval pyval int
  | SpawnProcess nat string "string list"
  | EtherAirdrop int
  | Arm deployer
  | Deploy deployer
  | TokenAirdrop token_agent address "address list" int
  | RegistryCommit string
  | InitializeStake address int int
  | ReactorRun
  | Remove string
  | Kill nat nat
  | SignalProcess nat string
  | SubprocessRun "string list"

text \<open>What the operator types: an answer to a yes/no question or a number.\<close>

datatype answer = Confirm bool | Entered int

text \<open>
  \<open>inputs\<close> is what the operator will type, \<open>rng\<close> the stream behind
  \<^verbatim>\<open>random.randint\<close> and \<^verbatim>\<open>os.urandom\<close> with the position reached in it,
  \<open>files\<close> the paths that exist, \<open>next_pid\<close> the pid the next spawned process
  gets, and \<open>reactor_outcome\<close> how \<^verbatim>\<open>reactor.run()\<close> will end: \<open>None\<close> for a
  normal stop, \<open>Some e\<close> when \<open>e\<close> is raised while the reactor runs.
\<close>

record world =
  inputs :: "answer list"
  rng :: "nat \<Rightarrow> nat"
  rng_pos :: nat
  ledger :: ledger
  files :: "string set"
  trace :: "event list"
  next_pid :: nat
  reactor_outcome :: "error option"

type_synonym 'a io = "world \<Rightarrow> (error + 'a) \<times> world"

definition return_io :: "'a \<Rightarrow> 'a io" where
  "return_io x w = (Inr x, w)"

definition raise_io :: "error \<Rightarrow> 'a io" where
  "raise_io e w = (Inl e, w)"

definition bind_io :: "'a io \<Rightarrow> ('a \<Rightarrow> 'b io) \<Rightarrow> 'b io" where
  "bind_io m f w = (case m w of (Inl e, w') \<Rightarrow> (Inl e, w') | (Inr x, w') \<Rightarrow> f x w')"

definition lift_io :: "error + 'a \<Rightarrow> 'a io" where
  "lift_io r w = (r, w)"

text \<open>\<^verbatim>\<open>try: body finally: fin\<close>: the \<open>finally\<close> block runs however the body ends; an
  exception of the block replaces the outcome of the body.\<close>

definition try_finally :: "'a io \<Rightarrow> unit io \<Rightarrow> 'a io" where
  "try_finally body fin w =
     (case body w of
        (r, w') \<Rightarrow> (case fin w' of (Inl e, w'') \<Rightarrow> (Inl e, w'') | (Inr u, w'') \<Rightarrow> (r, w'')))"

definition emit :: "event \<Rightarrow> unit io" where
  "emit e w = (Inr (), w\<lparr>trace := trace w @ [e]\<rparr>)"

subsection \<open>The terminal\<close>

text \<open>
  \<^verbatim>\<open>click.confirm\<close> asks again until the answer is a yes or a no, and \<^verbatim>\<open>click.prompt\<close>
  with \<^verbatim>\<open>type=int\<close> asks again until the answer is a number; both abort at the end of
  the input, and \<^verbatim>\<open>click.confirm(..., abort=True)\<close> aborts on a no.
\<close>

fun read_confirm :: "answer list \<Rightarrow> bool option \<times> answer list" where
  "read_confirm [] = (None, [])"
| "read_confirm (Confirm b # rest) = (Some b, rest)"
| "read_confirm (Entered n # rest) = read_confirm rest"

fun read_int :: "answer list \<Rightarrow> int option \<times> answer list" where
  "read_int [] = (None, [])"
| "read_int (Entered n # rest) = (Some n, rest)"
| "read_int (Confirm b # rest) = read_int rest"

definition click_confirm :: "string \<Rightarrow> bool \<Rightarrow> bool io" where
  "click_confirm text abort w =
     (case read_confirm (inputs w) of
        (None, rest) \<Rightarrow> (Inl Abort, w\<lparr>inputs := rest\<rparr>)
      | (Some b, rest) \<Rightarrow>
          (if abort \<and> \<not> b then (Inl Abort, w\<lparr>inputs := rest\<rparr>)
           else (Inr b, w\<lparr>inputs := rest\<rparr>)))"

definition click_prompt :: "string \<Rightarrow> int io" where
  "click_prompt text w =
     (case read_int (inputs w) of
        (None, rest) \<Rightarrow> (Inl Abort, w\<lparr>inputs := rest\<rparr>)
      | (Some n, rest) \<Rightarrow> (Inr n, w\<lparr>inputs := rest\<rparr>))"

subsection \<open>The ledger agents and the reactor\<close>

text \<open>
  The reads of the agents answer from the ledger of the world. Calls into the agents,
  the deployers, the reactor and the operating system are taken to return; what they
  raise on their own is outside the sources.
\<close>

definition get_all_stakes :: "address \<Rightarrow> stake_info list io" where
  "get_all_stakes miner_address w = (Inr (stakes (ledger w) miner_address), w)"

definition get_balance :: "address \<Rightarrow> int io" where
  "get_balance a w = (Inr (balances (ledger w) a), w)"

definition get_current_period :: "int io" where
  "get_current_period w = (Inr (current_period (ledger w)), w)"

text \<open>
  Modelled from the spec: the effect of \<^verbatim>\<open>MinerAgent.deposit_tokens\<close> on the ledger (the
  agent and the escrow contract behind it are not among the sources). The spec: the
  stake starts in the current period, ends \<open>duration\<close> periods later, and is committed
  for the address; its index is its position among the stakes of the address.
\<close>

definition commit_stake :: "int \<Rightarrow> int \<Rightarrow> address \<Rightarrow> ledger \<Rightarrow> ledger" where
  "commit_stake amount lock_periods sender l =
     (let s = \<lparr>owner = sender, stake_value = amount,
               start_period = current_period l,
               end_period = current_period l + lock_periods,
               stake_index = length (stakes l sender)\<rparr>
      in l\<lparr>stakes := (stakes l)(sender := stakes l sender @ [s])\<rparr>)"

definition deposit_tokens :: "int \<Rightarrow> int \<Rightarrow> address \<Rightarrow> unit io" where
  "deposit_tokens amount lock_periods sender_address w =
     (Inr (), w\<lparr>trace := trace w @ [DepositTokens amount lock_periods sender_address],
                ledger := commit_stake amount lock_periods sender_address (ledger w)\<rparr>)"

text \<open>\<^verbatim>\<open>reactor.spawnProcess(protocol, executable, args)\<close>: one more process of the
  operating system; the call returns its handle, here the pid.\<close>

definition spawnProcess :: "string \<Rightarrow> string list \<Rightarrow> nat io" where
  "spawnProcess executable args w =
     (Inr (next_pid w),
      w\<lparr>trace := trace w @ [SpawnProcess (next_pid w) executable args],
        next_pid := Suc (next_pid w)\<rparr>)"

section \<open>The stake command\<close>

text \<open>
  The configuration object of the command line. \<^verbatim>\<open>NucypherClickConfig.__init__\<close> sets
  none of \<^verbatim>\<open>sim_processes\<close>, \<^verbatim>\<open>ursula_processes\<close> and \<^verbatim>\<open>simulation_running\<close>, and
  no command assigns them: \<open>None\<close> is the attribute that does not exist, and reading
  it raises an \<^verbatim>\<open>AttributeError\<close>.
\<close>

record process =
  pid :: nat

record config =
  accounts :: "address list"
  sim_processes :: "process list option"
  ursula_processes :: "process list option"
  simulation_running :: "bool option"

definition NucypherClickConfig :: "address list \<Rightarrow> config" where
  "NucypherClickConfig accs =
     \<lparr>accounts = accs, sim_processes = None, ursula_processes = None,
      simulation_running = None\<rparr>"

text \<open>
  Lines 264 to 275: without \<^verbatim>\<open>--address\<close> the accounts are listed by a loop over
  \<^verbatim>\<open>enumerate(config.accounts)\<close> whose loop variables are \<^verbatim>\<open>index\<close> and
  \<^verbatim>\<open>address\<close>, so the loop leaves \<^verbatim>\<open>index\<close> bound to the last position; then the
  operator selects an account.
\<close>

definition select_address :: "config \<Rightarrow> string option \<Rightarrow> pyval \<Rightarrow> (address \<times> pyval) io" where
  "select_address cfg address index =
     (if address = None \<or> address = Some [] then
        (let index' = (if accounts cfg = [] then index
                       else PInt (int (length (accounts cfg)) - 1))
         in bind_io (click_prompt ''Enter 0-{}'') (\<lambda>account_selection.
            bind_io (lift_io (py_getitem (accounts cfg) (PInt account_selection))) (\<lambda>a.
            return_io (a, index'))))
      else return_io (the address, index))"

definition stake_init :: "address \<Rightarrow> unit io" where
  "stake_init address =
     bind_io (click_confirm ''Stage a new stake?'' True) (\<lambda>_.
     bind_io (get_all_stakes address) (\<lambda>live_stakes.
     if length live_stakes > 0 then
       raise_io (RuntimeError (''There is an existing stake for '' @ address))
     else
     bind_io (get_balance address) (\<lambda>balance.
     bind_io (click_prompt ''Enter stake value'') (\<lambda>val.
     bind_io (click_prompt ''Enter stake duration in days'') (\<lambda>duration.
     bind_io get_current_period (\<lambda>start_period.
     let end_period = start_period + duration in
     bind_io (emit (Staged address val duration start_period end_period)) (\<lambda>_.
     bind_io (click_confirm ''Is this correct?'' False) (\<lambda>correct.
     if \<not> correct then raise_io NotImplementedError
     else
     bind_io (deposit_tokens val duration address) (\<lambda>_.
     bind_io (spawnProcess ''nucypher-cli'' [''run_ursula'']) (\<lambda>ursula_proc.
     return_io ()))))))))))"

definition stake_resume :: "unit io" where
  "stake_resume =
     bind_io (spawnProcess ''nucypher-cli'' [''run_ursula'']) (\<lambda>ursula_proc. return_io ())"

definition stake_confirm_activity :: "address \<Rightarrow> unit io" where
  "stake_confirm_activity address =
     bind_io (get_all_stakes address) (\<lambda>stakes.
     if length stakes = 0 then
       raise_io (RuntimeError (''There are no active stakes for '' @ address))
     else emit (ConfirmActivity address))"

text \<open>
  Lines 347 to 376. The value handed to \<^verbatim>\<open>divide_stake\<close> is \<^verbatim>\<open>value\<close>, the
  \<^verbatim>\<open>--value\<close> option of the command; \<^verbatim>\<open>target_value\<close>, which the operator enters, is
  only printed.
\<close>

definition stake_divide :: "address \<Rightarrow> pyval \<Rightarrow> pyval \<Rightarrow> unit io" where
  "stake_divide address index val =
     bind_io (get_all_stakes address) (\<lambda>stakes.
     if length stakes = 0 then
       raise_io (RuntimeError (''There are no active stakes for '' @ address))
     else
     bind_io (if \<not> truthy index
              then bind_io (click_prompt ''Select a stake to divide'') (\<lambda>i. return_io (PInt i))
              else return_io index) (\<lambda>index.
     bind_io (click_prompt ''Enter new target value'') (\<lambda>target_value.
     bind_io (click_prompt ''Enter number of periods to extend'') (\<lambda>extension.
     bind_io (lift_io (py_getitem stakes index)) (\<lambda>current_stake.
     bind_io (click_confirm ''Is this correct?'' True) (\<lambda>_.
     emit (DivideStake address index val extension)))))))"

text \<open>
  The command. \<^verbatim>\<open>config.connect_to_contracts()\<close> builds the agents and has no effect
  of its own here; the \<^verbatim>\<open>list\<close> action only prints.
\<close>

definition stake :: "config \<Rightarrow> string \<Rightarrow> string option \<Rightarrow> pyval \<Rightarrow> pyval \<Rightarrow> pyval \<Rightarrow> unit io" where
  "stake cfg action address index val duration =
     bind_io (select_address cfg address index) (\<lambda>(address, index).
     if action = ''list'' then bind_io (get_all_stakes address) (\<lambda>live_stakes. return_io ())
     else if action = ''init'' then stake_init address
     else if action = ''resume'' then stake_resume
     else if action = ''confirm-activity'' then stake_confirm_activity address
     else if action = ''divide'' then stake_divide address index val
     else if action = ''collect-reward'' then raise_io NotImplementedError
     else if action = ''abort'' then
       bind_io (click_confirm ''Are you sure you want to abort the staking process?'' True)
         (\<lambda>_. raise_io NotImplementedError)
     else return_io ())"

section \<open>The simulate command\<close>

text \<open>
  Constants that \<^verbatim>\<open>cli/main.py\<close> takes from modules that are not among the sources
  (\<^verbatim>\<open>nucypher.blockchain.eth.constants\<close>, \<^verbatim>\<open>nucypher.config.constants\<close>,
  \<^verbatim>\<open>nucypher.utilities.sandbox.constants\<close>, \<^verbatim>\<open>sys\<close>) are parameters.
\<close>

record constants =
  BASE_DIR :: string
  sys_executable :: string
  DISPATCHER_SECRET_LENGTH :: nat
  MIN_ALLOWED_LOCKED :: int
  MIN_LOCKED_PERIODS :: int
  MAX_MINTING_PERIODS :: int
  DEVELOPMENT_TOKEN_AIRDROP_AMOUNT :: int
  DEVELOPMENT_ETH_AIRDROP_AMOUNT :: int

text \<open>
  The name \<^verbatim>\<open>DEFAULT_SIMULATION_REGISTRY_FILEPATH\<close> is read at lines 477 and 565. No
  import and no assignment of \<^verbatim>\<open>cli/main.py\<close> binds it, so reading it raises a
  \<^verbatim>\<open>NameError\<close>; the argument is evaluated before the call it is passed to.
\<close>

definition DEFAULT_SIMULATION_REGISTRY_FILEPATH :: "string io" where
  "DEFAULT_SIMULATION_REGISTRY_FILEPATH = raise_io NameError"

subsection \<open>Randomness, files, processes\<close>

text \<open>\<^verbatim>\<open>random.randint(a, b)\<close> raises a \<^verbatim>\<open>ValueError\<close> on an empty range.\<close>

definition randint :: "int \<Rightarrow> int \<Rightarrow> int io" where
  "randint a b w =
     (if b < a then (Inl ValueError, w)
      else (Inr (a + int (rng w (rng_pos w) mod nat (b - a + 1))),
            w\<lparr>rng_pos := Suc (rng_pos w)\<rparr>))"

definition os_urandom :: "nat \<Rightarrow> nat list io" where
  "os_urandom n w =
     (Inr (map (\<lambda>i. rng w (rng_pos w + i) mod 256) [0..<n]), w\<lparr>rng_pos := rng_pos w + n\<rparr>)"

definition os_remove :: "string \<Rightarrow> unit io" where
  "os_remove path w =
     (if path \<in> files w
      then (Inr (), w\<lparr>trace := trace w @ [Remove path], files := files w - {path}\<rparr>)
      else (Inl FileNotFoundError, w))"

text \<open>\<^verbatim>\<open>os.kill(pid, 9)\<close> is recorded as the request; whether the process still
  exists is not part of the world.\<close>

definition os_kill :: "nat \<Rightarrow> nat \<Rightarrow> unit io" where
  "os_kill p sig = emit (Kill p sig)"

subsection \<open>Ledger calls of the simulation\<close>

definition ether_airdrop :: "int \<Rightarrow> unit io" where
  "ether_airdrop amount = emit (EtherAirdrop amount)"

definition arm :: "deployer \<Rightarrow> unit io" where
  "arm d = emit (Arm d)"

definition deploy :: "deployer \<Rightarrow> unit io" where
  "deploy d = emit (Deploy d)"

text \<open>
  Modelled from the spec: the effects of \<^verbatim>\<open>token_airdrop\<close>
  (\<^verbatim>\<open>nucypher.utilities.sandbox.blockchain\<close>), of \<^verbatim>\<open>registry.commit\<close> and of
  \<^verbatim>\<open>Miner.initialize_stake\<close>, none of them among the sources. The spec: the airdrop funds
  each listed account with the amount, the commit persists the registry to the named
  file, and the simulation's stake is committed as a deposit is.
\<close>

definition fund :: "address list \<Rightarrow> int \<Rightarrow> ledger \<Rightarrow> ledger" where
  "fund addresses amount l =
     l\<lparr>balances := (\<lambda>a. balances l a + amount * int (count_list addresses a))\<rparr>"

definition token_airdrop :: "token_agent \<Rightarrow> address \<Rightarrow> address list \<Rightarrow> int \<Rightarrow> unit io" where
  "token_airdrop token_agent origin addresses amount w =
     (Inr (), w\<lparr>trace := trace w @ [TokenAirdrop token_agent origin addresses amount],
                ledger := fund addresses amount (ledger w)\<rparr>)"

definition registry_commit :: "string \<Rightarrow> string io" where
  "registry_commit filepath w =
     (Inr filepath, w\<lparr>trace := trace w @ [RegistryCommit filepath],
                      files := insert filepath (files w)\<rparr>)"

definition initialize_stake :: "address \<Rightarrow> int \<Rightarrow> int \<Rightarrow> unit io" where
  "initialize_stake checksum_address amount lock_periods w =
     (Inr (), w\<lparr>trace := trace w @ [InitializeStake checksum_address amount lock_periods],
                ledger := commit_stake amount lock_periods checksum_address (ledger w)\<rparr>)"

subsection \<open>Lines 419 to 477: connection and deployment\<close>

text \<open>
  The registry, the deployer interface and the tester chain are constructed without a
  call that is recorded; the accounts of the tester chain are the \<open>eth_accounts\<close> of the
  ledger, since how many accounts \<^verbatim>\<open>TesterBlockchain(test_accounts=nodes)\<close> creates
  is decided outside the sources.
\<close>

definition simulate_blockchain :: "constants \<Rightarrow> int \<Rightarrow> bool \<Rightarrow> address list io" where
  "simulate_blockchain c nodes geth =
     (let test_provider_uri = (if geth then ''ipc:///tmp/geth.ipc'' else ''pyevm://tester'') in
      bind_io (\<lambda>w. (Inr (eth_accounts (ledger w)), w)) (\<lambda>accounts.
      case accounts of
        [] \<Rightarrow> raise_io ValueError
      | origin # everyone_else \<Rightarrow>
      bind_io (ether_airdrop (DEVELOPMENT_ETH_AIRDROP_AMOUNT c)) (\<lambda>_.
      bind_io (click_confirm ''Deploy all nucypher contracts to {}?'' True) (\<lambda>_.
      let token_deployer = NucypherTokenDeployer origin in
      bind_io (arm token_deployer) (\<lambda>_.
      bind_io (deploy token_deployer) (\<lambda>_.
      let token_agent = NucypherTokenAgent in
      bind_io (os_urandom (DISPATCHER_SECRET_LENGTH c)) (\<lambda>miners_escrow_secret.
      let miner_escrow_deployer = MinerEscrowDeployer token_agent origin miners_escrow_secret in
      bind_io (arm miner_escrow_deployer) (\<lambda>_.
      bind_io (deploy miner_escrow_deployer) (\<lambda>_.
      let miner_agent = MinerAgent token_agent in
      bind_io (os_urandom (DISPATCHER_SECRET_LENGTH c)) (\<lambda>policy_manager_secret.
      let policy_manager_deployer = PolicyManagerDeployer miner_agent origin policy_manager_secret in
      bind_io (arm policy_manager_deployer) (\<lambda>_.
      bind_io (deploy policy_manager_deployer) (\<lambda>_.
      let policy_agent = PolicyAgent miner_agent;
          airdrop_amount = DEVELOPMENT_TOKEN_AIRDROP_AMOUNT c in
      bind_io (token_airdrop token_agent origin everyone_else airdrop_amount) (\<lambda>receipts.
      bind_io DEFAULT_SIMULATION_REGISTRY_FILEPATH (\<lambda>filepath.
      bind_io (registry_commit filepath) (\<lambda>sim_registry_name.
      return_io everyone_else)))))))))))))))"

subsection \<open>Lines 487 to 555: the swarm\<close>

text \<open>In federated-only mode the addresses of the swarm are the constant
  \<^verbatim>\<open>NotImplemented\<close>, which is not iterable.\<close>

datatype sim_addresses = NotImplemented | Addresses "address list"

definition ursula_template :: string where
  "ursula_template =
     [CHR 0x0A] @ ''            python3 {} run_ursula --rest-port {} --db-name {}'' @
     [CHR 0x0A] @ ''            ''"

text \<open>The local variables of one iteration of the loop, and the pid of the process
  it spawned.\<close>

record sim_node =
  rest_port :: int
  db_name :: string
  proc_params :: "string list"
  ursula_proc :: nat

definition spawn_ursula :: "constants \<Rightarrow> bool \<Rightarrow> int \<Rightarrow> address \<Rightarrow> sim_node io" where
  "spawn_ursula c federated_only sim_port_number sim_address =
     (let rest_port = sim_port_number in
      bind_io (lift_io (py_format ''sim-{}'' [str_int rest_port])) (\<lambda>db_name.
      let cli_exec = os_path_join (BASE_DIR c) [''cli'', ''main.py''];
          python_exec = ''python'' in
      bind_io (lift_io (py_format ursula_template
                          [python_exec, cli_exec, str_int rest_port, db_name])) (\<lambda>cmd.
      let proc_params = py_split cmd in
      bind_io
        (if federated_only then return_io (proc_params @ [''--federated-only''])
         else
           bind_io (get_balance sim_address) (\<lambda>balance.
           bind_io (randint (MIN_ALLOWED_LOCKED c) balance) (\<lambda>val.
           bind_io (randint (MIN_LOCKED_PERIODS c) (MAX_MINTING_PERIODS c)) (\<lambda>periods.
           bind_io (initialize_stake sim_address val periods) (\<lambda>_.
           bind_io (lift_io (py_format ''--checksum-address {}'' [sim_address])) (\<lambda>s.
           return_io (proc_params @ py_split s))))))) (\<lambda>proc_params.
      bind_io (spawnProcess cli_exec proc_params) (\<lambda>ursula_proc.
      return_io \<lparr>rest_port = rest_port, db_name = db_name, proc_params = proc_params,
                 ursula_proc = ursula_proc\<rparr>)))))"

fun swarm_loop :: "constants \<Rightarrow> bool \<Rightarrow> int \<Rightarrow> address list \<Rightarrow> sim_node list io" where
  "swarm_loop c federated_only sim_port_number [] = return_io []"
| "swarm_loop c federated_only sim_port_number (sim_address # rest) =
     bind_io (spawn_ursula c federated_only sim_port_number sim_address) (\<lambda>node.
     bind_io (swarm_loop c federated_only (sim_port_number + 1) rest) (\<lambda>nodes.
     return_io (node # nodes)))"

definition simulate_swarm :: "constants \<Rightarrow> bool \<Rightarrow> sim_addresses \<Rightarrow> sim_node list io" where
  "simulate_swarm c federated_only addrs =
     (let start_port = 8787 in
      case addrs of
        NotImplemented \<Rightarrow> raise_io TypeError
      | Addresses as \<Rightarrow> swarm_loop c federated_only start_port as)"

subsection \<open>Lines 557 to 572: the reactor and the cleanup\<close>

definition reactor_run :: "unit io" where
  "reactor_run =
     bind_io (emit ReactorRun) (\<lambda>_ w.
       (case reactor_outcome w of None \<Rightarrow> Inr () | Some e \<Rightarrow> Inl e, w))"

fun kill_processes :: "process list \<Rightarrow> unit io" where
  "kill_processes [] = return_io ()"
| "kill_processes (p # ps) = bind_io (os_kill (pid p) 9) (\<lambda>_. kill_processes ps)"

definition simulate_cleanup :: "config \<Rightarrow> bool \<Rightarrow> unit io" where
  "simulate_cleanup cfg federated_only =
     bind_io (if \<not> federated_only
              then bind_io DEFAULT_SIMULATION_REGISTRY_FILEPATH (\<lambda>filepath. os_remove filepath)
              else return_io ()) (\<lambda>_.
     case sim_processes cfg of
       None \<Rightarrow> raise_io AttributeError
     | Some ps \<Rightarrow> kill_processes ps)"

text \<open>Lines 559 to 572: \<^verbatim>\<open>try: reactor.run() finally: ...\<close>.\<close>

definition simulate_reactor :: "config \<Rightarrow> bool \<Rightarrow> unit io" where
  "simulate_reactor cfg federated_only =
     try_finally reactor_run (simulate_cleanup cfg federated_only)"

fun signal_processes :: "process list \<Rightarrow> unit io" where
  "signal_processes [] = return_io ()"
| "signal_processes (p # ps) =
     bind_io (emit (SignalProcess (pid p) ''KILL'')) (\<lambda>_. signal_processes ps)"

definition simulate :: "config \<Rightarrow> constants \<Rightarrow> string \<Rightarrow> int \<Rightarrow> bool \<Rightarrow> bool \<Rightarrow> unit io" where
  "simulate cfg c action nodes federated_only geth =
     (if action = ''start'' then
        bind_io (if \<not> federated_only
                 then bind_io (simulate_blockchain c nodes geth) (\<lambda>everyone_else.
                      return_io (Addresses everyone_else))
                 else return_io NotImplemented) (\<lambda>sim_addresses.
        bind_io (simulate_swarm c federated_only sim_addresses) (\<lambda>spawned.
        bind_io (click_confirm ''Start the reactor?'' True) (\<lambda>_.
        simulate_reactor cfg federated_only)))
      else if action = ''stop'' then
        (case ursula_processes cfg of
           None \<Rightarrow> raise_io AttributeError
         | Some ps \<Rightarrow> signal_processes ps)
      else if action = ''status'' then
        (case simulation_running cfg of
           None \<Rightarrow> raise_io AttributeError
         | Some running \<Rightarrow>
             if \<not> running then return_io ()
             else (case ursula_processes cfg of
                     None \<Rightarrow> raise_io AttributeError
                   | Some ps \<Rightarrow> return_io ()))
      else if action = ''demo'' then
        (let demo_exec = os_path_join (BASE_DIR c) [''cli'', ''demos'', ''finnegans-wake-demo.py''];
             process_args = [sys_executable c, demo_exec]
         in emit (SubprocessRun (if federated_only then process_args @ [''--federated-only'']
                                 else process_args)))
      else return_io ())"

section \<open>Observations on traces and example inputs\<close>

text \<open>The pids of the processes spawned, and the pids that a kill was requested
  for, in the order of the calls.\<close>

fun spawned_pids :: "event list \<Rightarrow> nat list" where
  "spawned_pids [] = []"
| "spawned_pids (SpawnProcess p exe args # es) = p # spawned_pids es"
| "spawned_pids (e # es) = spawned_pids es"

fun kill_requests :: "event list \<Rightarrow> nat list" where
  "kill_requests [] = []"
| "kill_requests (Kill p sig # es) = p # kill_requests es"
| "kill_requests (e # es) = kill_requests es"

definition example_constants :: constants where
  "example_constants =
     \<lparr>BASE_DIR = ''/opt/nucypher'', sys_executable = ''/usr/bin/python3'',
      DISPATCHER_SECRET_LENGTH = 2, MIN_ALLOWED_LOCKED = 10, MIN_LOCKED_PERIODS = 1,
      MAX_MINTING_PERIODS = 5, DEVELOPMENT_TOKEN_AIRDROP_AMOUNT = 100,
      DEVELOPMENT_ETH_AIRDROP_AMOUNT = 7\<rparr>"

text \<open>A chain with the origin account and one more account, no stakes, and a
  balance of 100 everywhere, in period 3.\<close>

definition example_ledger :: ledger where
  "example_ledger =
     \<lparr>eth_accounts = [''0xO'', ''0xA''], stakes = (\<lambda>a. []), balances = (\<lambda>a. 100),
      current_period = 3\<rparr>"

definition example_world :: "ledger \<Rightarrow> answer list \<Rightarrow> world" where
  "example_world l ins =
     \<lparr>inputs = ins, rng = (\<lambda>i. 0), rng_pos = 0, ledger = l, files = {}, trace = [],
      next_pid = 0, reactor_outcome = None\<rparr>"

definition example_config :: config where
  "example_config = NucypherClickConfig [''0xO'', ''0xA'']"


section \<open>Properties of the stake command\<close>

lemmas io_defs = return_io_def raise_io_def bind_io_def lift_io_def emit_def
  click_confirm_def click_prompt_def get_all_stakes_def get_balance_def
  get_current_period_def deposit_tokens_def spawnProcess_def

lemmas example_defs = example_constants_def example_ledger_def example_world_def
  example_config_def NucypherClickConfig_def

text \<open>
  Claim C6. For an address without a stake, \<^verbatim>\<open>stake init\<close> with a value between
  \<^verbatim>\<open>MIN_ALLOWED_LOCKED\<close> and the balance and a duration between \<^verbatim>\<open>MIN_LOCKED_PERIODS\<close>
  and \<^verbatim>\<open>MAX_MINTING_PERIODS\<close>, both confirmed by the operator, succeeds: the staged
  stake starts in the current period and ends \<open>d\<close> periods later, exactly one deposit
  of \<open>v\<close> for \<open>d\<close> periods is submitted, and afterwards the stakes of the address are
  exactly one stake with \<open>end_period - start_period = d\<close>. The effect of the deposit on
  the ledger is the one the spec gives; the command itself does not use the bounds.
\<close>

theorem stake_init_succeeds:
  assumes "a \<noteq> []" and "stakes (ledger w) a = []"
    and "inputs w = Confirm True # Entered v # Entered d # Confirm True # rest"
    and "MIN_ALLOWED_LOCKED c \<le> v" and "v \<le> balances (ledger w) a"
    and "MIN_LOCKED_PERIODS c \<le> d" and "d \<le> MAX_MINTING_PERIODS c"
  shows "\<exists>w' s. stake cfg ''init'' (Some a) index val duration w = (Inr (), w')
           \<and> trace w' = trace w @
               [Staged a v d (current_period (ledger w)) (current_period (ledger w) + d),
                DepositTokens v d a,
                SpawnProcess (next_pid w) ''nucypher-cli'' [''run_ursula'']]
           \<and> get_all_stakes a w' = (Inr [s], w')
           \<and> start_period s = current_period (ledger w)
           \<and> end_period s = start_period s + d
           \<and> end_period s - start_period s = d
           \<and> stake_value s = v \<and> owner s = a"
  using assms
  by (simp add: stake_def select_address_def stake_init_def io_defs commit_stake_def Let_def)

theorem stake_init_succeeds_witness:
  "\<exists>w' s. stake example_config ''init'' (Some ''0xA'') PNone PNone PNone
            (example_world example_ledger [Confirm True, Entered 50, Entered 4, Confirm True])
            = (Inr (), w')
     \<and> trace w' = [Staged ''0xA'' 50 4 3 7, DepositTokens 50 4 ''0xA'',
                   SpawnProcess 0 ''nucypher-cli'' [''run_ursula'']]
     \<and> get_all_stakes ''0xA'' w' = (Inr [s], w')
     \<and> end_period s - start_period s = 4"
  using stake_init_succeeds [where a = "''0xA''" and v = 50 and d = 4 and rest = "[]"
      and c = example_constants and cfg = example_config and index = PNone and val = PNone
      and duration = PNone
      and w = "example_world example_ledger [Confirm True, Entered 50, Entered 4, Confirm True]"]
  by (simp add: example_defs) blast

text \<open>
  Claim C7. For an address that already has a stake, \<^verbatim>\<open>stake init\<close>, once the operator
  has agreed to stage a stake, fails with the \<^verbatim>\<open>RuntimeError\<close> that reports the existing
  stake; nothing is appended to the trace (no deposit is submitted, no process is
  spawned) and the ledger is unchanged.
\<close>

theorem stake_init_existing_stake:
  assumes "a \<noteq> []" and "stakes (ledger w) a \<noteq> []"
    and "fst (read_confirm (inputs w)) = Some True"
  shows "\<exists>w'. stake cfg ''init'' (Some a) index val duration w
               = (Inl (RuntimeError (''There is an existing stake for '' @ a)), w')
           \<and> trace w' = trace w \<and> ledger w' = ledger w \<and> next_pid w' = next_pid w"
  using assms
  by (auto simp add: stake_def select_address_def stake_init_def io_defs Let_def
        split: prod.splits option.splits)

theorem stake_init_existing_stake_witness:
  "\<exists>w'. stake example_config ''init'' (Some ''0xA'') PNone PNone PNone
          (example_world (commit_stake 1000 10 ''0xA'' example_ledger)
             [Confirm True, Entered 50, Entered 4, Confirm True])
          = (Inl (RuntimeError ''There is an existing stake for 0xA''), w')
     \<and> trace w' = []
     \<and> ledger w' = commit_stake 1000 10 ''0xA'' example_ledger"
  using stake_init_existing_stake [where a = "''0xA''" and cfg = example_config
      and index = PNone and val = PNone and duration = PNone
      and w = "example_world (commit_stake 1000 10 ''0xA'' example_ledger)
                 [Confirm True, Entered 50, Entered 4, Confirm True]"]
  by (simp add: example_defs commit_stake_def) blast

text \<open>Whatever the operator answers, \<^verbatim>\<open>stake init\<close> for an address with a stake
  fails without any call: declining the first question aborts the command.\<close>

lemma stake_init_existing_no_effect:
  assumes "a \<noteq> []" and "stakes (ledger w) a \<noteq> []"
  shows "\<exists>e w'. stake cfg ''init'' (Some a) index val duration w = (Inl e, w')
           \<and> (e = Abort \<or> e = RuntimeError (''There is an existing stake for '' @ a))
           \<and> trace w' = trace w \<and> ledger w' = ledger w \<and> next_pid w' = next_pid w"
  using assms
  by (auto simp add: stake_def select_address_def stake_init_def io_defs Let_def
        split: prod.splits option.splits)

text \<open>
  Claim C9. If the operator rejects the question after the review of the staged stake,
  \<^verbatim>\<open>stake init\<close> raises \<^verbatim>\<open>NotImplementedError\<close>; the review is the only entry added to
  the trace, so no deposit is submitted, and the ledger is unchanged.
\<close>

theorem stake_init_rejected:
  assumes "a \<noteq> []" and "stakes (ledger w) a = []"
    and "inputs w = Confirm True # Entered v # Entered d # Confirm False # rest"
  shows "\<exists>w'. stake cfg ''init'' (Some a) index val duration w = (Inl NotImplementedError, w')
           \<and> trace w' = trace w @
               [Staged a v d (current_period (ledger w)) (current_period (ledger w) + d)]
           \<and> ledger w' = ledger w \<and> next_pid w' = next_pid w"
  using assms
  by (simp add: stake_def select_address_def stake_init_def io_defs Let_def)

theorem stake_init_rejected_witness:
  "\<exists>w'. stake example_config ''init'' (Some ''0xA'') PNone PNone PNone
          (example_world example_ledger [Confirm True, Entered 50, Entered 4, Confirm False])
          = (Inl NotImplementedError, w')
     \<and> trace w' = [Staged ''0xA'' 50 4 3 7]
     \<and> ledger w' = example_ledger"
  using stake_init_rejected [where a = "''0xA''" and v = 50 and d = 4 and rest = "[]"
      and cfg = example_config and index = PNone and val = PNone and duration = PNone
      and w = "example_world example_ledger
                 [Confirm True, Entered 50, Entered 4, Confirm False]"]
  by (simp add: example_defs) blast

text \<open>
  Claim C10. Every \<^verbatim>\<open>stake init\<close> that succeeds has, right after the deposit, spawned
  one \<^verbatim>\<open>run_ursula\<close> process: the trace ends with the review, the deposit and the
  spawn, and one more pid is in use.
\<close>

theorem stake_init_spawns:
  assumes "stake cfg ''init'' address index val duration w = (Inr (), w')"
  shows "\<exists>a v d. trace w' = trace w @
               [Staged a v d (current_period (ledger w)) (current_period (ledger w) + d),
                DepositTokens v d a,
                SpawnProcess (next_pid w) ''nucypher-cli'' [''run_ursula'']]
           \<and> next_pid w' = Suc (next_pid w)"
  using assms
  by (auto simp add: stake_def select_address_def stake_init_def io_defs Let_def
        split: prod.splits option.splits if_splits sum.splits)

theorem stake_init_spawns_witness:
  "fst (stake example_config ''init'' (Some ''0xA'') PNone PNone PNone
          (example_world example_ledger [Confirm True, Entered 50, Entered 4, Confirm True]))
     = Inr ()
   \<and> (\<exists>a v d. trace (snd (stake example_config ''init'' (Some ''0xA'') PNone PNone PNone
          (example_world example_ledger [Confirm True, Entered 50, Entered 4, Confirm True])))
        = [Staged a v d 3 (3 + d), DepositTokens v d a,
           SpawnProcess 0 ''nucypher-cli'' [''run_ursula'']])"
proof -
  let ?W = "example_world example_ledger [Confirm True, Entered 50, Entered 4, Confirm True]"
  let ?W' = "?W\<lparr>inputs := [],
                 trace := [Staged ''0xA'' 50 4 3 7, DepositTokens 50 4 ''0xA'',
                           SpawnProcess 0 ''nucypher-cli'' [''run_ursula'']],
                 ledger := commit_stake 50 4 ''0xA'' example_ledger,
                 next_pid := 1\<rparr>"
  have h: "stake example_config ''init'' (Some ''0xA'') PNone PNone PNone ?W = (Inr (), ?W')"
    by (simp add: stake_def select_address_def stake_init_def io_defs Let_def example_defs)
  have "\<exists>a v d. trace ?W' = trace ?W @
               [Staged a v d (current_period (ledger ?W)) (current_period (ledger ?W) + d),
                DepositTokens v d a,
                SpawnProcess (next_pid ?W) ''nucypher-cli'' [''run_ursula'']]
           \<and> next_pid ?W' = Suc (next_pid ?W)"
    by (rule stake_init_spawns [OF h])
  then have "\<exists>a v d. trace ?W' =
               [Staged a v d 3 (3 + d), DepositTokens v d a,
                SpawnProcess 0 ''nucypher-cli'' [''run_ursula'']]"
    by (simp add: example_defs)
  with h show ?thesis by simp
qed

text \<open>
  Claim C5, as the code has it. \<^verbatim>\<open>stake init\<close> has no check of the value against the
  balance or of the duration against the period bounds: whatever integers the operator
  enters, for an address without a stake and with both questions confirmed the deposit
  is submitted with exactly these integers. Rejecting them is left to the ledger agent
  behind \<^verbatim>\<open>deposit_tokens\<close>.
\<close>

theorem stake_init_no_range_check:
  assumes "a \<noteq> []" and "stakes (ledger w) a = []"
    and "inputs w = Confirm True # Entered v # Entered d # Confirm True # rest"
  shows "\<exists>w'. stake cfg ''init'' (Some a) index val duration w = (Inr (), w')
           \<and> trace w' = trace w @
               [Staged a v d (current_period (ledger w)) (current_period (ledger w) + d),
                DepositTokens v d a,
                SpawnProcess (next_pid w) ''nucypher-cli'' [''run_ursula'']]"
  using assms
  by (simp add: stake_def select_address_def stake_init_def io_defs Let_def)

theorem stake_init_no_range_check_witness:
  "\<exists>w'. stake example_config ''init'' (Some ''0xA'') PNone PNone PNone
          (example_world example_ledger
             [Confirm True, Entered 1000000, Entered 9999, Confirm True])
          = (Inr (), w')
     \<and> trace w' = [Staged ''0xA'' 1000000 9999 3 10002, DepositTokens 1000000 9999 ''0xA'',
                   SpawnProcess 0 ''nucypher-cli'' [''run_ursula'']]"
  using stake_init_no_range_check [where a = "''0xA''" and v = 1000000 and d = 9999
      and rest = "[]" and cfg = example_config and index = PNone and val = PNone
      and duration = PNone
      and w = "example_world example_ledger
                 [Confirm True, Entered 1000000, Entered 9999, Confirm True]"]
  by (simp add: example_defs)

text \<open>The claim as the spec states it fails: a value of \<open>-5\<close>, which is outside
  \<open>(0, balance]\<close>, and a duration of \<open>0\<close>, which is below the minimum, are deposited.\<close>

theorem stake_init_out_of_range_counterexample:
  "\<not> (0 < (- 5 :: int) \<and> - 5 \<le> balances example_ledger ''0xA'')
   \<and> \<not> (MIN_LOCKED_PERIODS example_constants \<le> 0)
   \<and> fst (stake example_config ''init'' (Some ''0xA'') PNone PNone PNone
          (example_world example_ledger [Confirm True, Entered (- 5), Entered 0, Confirm True]))
     = Inr ()
   \<and> trace (snd (stake example_config ''init'' (Some ''0xA'') PNone PNone PNone
          (example_world example_ledger [Confirm True, Entered (- 5), Entered 0, Confirm True])))
     = [Staged ''0xA'' (- 5) 0 3 3, DepositTokens (- 5) 0 ''0xA'',
        SpawnProcess 0 ''nucypher-cli'' [''run_ursula'']]"
  by (simp add: stake_def select_address_def stake_init_def io_defs Let_def example_defs
        commit_stake_def)

text \<open>
  Claim C2, evaluated on the code. The stake of 1000 at index 0 is divided; the operator
  selects index 0 and enters the target value 400 and the extension 5. The call that is
  submitted carries the \<^verbatim>\<open>--value\<close> option of the command, here \<^verbatim>\<open>None\<close>, and not the
  target value 400.
\<close>

theorem stake_divide_submits_value_option:
  "fst (stake example_config ''divide'' (Some ''0xA'') PNone PNone PNone
          (example_world (commit_stake 1000 10 ''0xA'' example_ledger)
             [Entered 0, Entered 400, Entered 5, Confirm True])) = Inr ()
   \<and> trace (snd (stake example_config ''divide'' (Some ''0xA'') PNone PNone PNone
          (example_world (commit_stake 1000 10 ''0xA'' example_ledger)
             [Entered 0, Entered 400, Entered 5, Confirm True])))
     = [DivideStake ''0xA'' (PInt 0) PNone 5]"
  by (simp add: stake_def select_address_def stake_divide_def io_defs Let_def example_defs
        commit_stake_def py_getitem_def)

text \<open>On every input: a division that is submitted carries the \<^verbatim>\<open>--value\<close> option,
  whatever target value was entered.\<close>

lemma stake_divide_value_is_option:
  assumes "stake cfg ''divide'' address index val duration w = (Inr (), w')"
  shows "\<exists>a i extension. trace w' = trace w @ [DivideStake a i val extension]"
  using assms
  by (auto simp add: stake_def select_address_def stake_divide_def io_defs Let_def
        split: prod.splits option.splits if_splits sum.splits)

section \<open>Properties of the simulate command\<close>

lemmas sim_defs = simulate_def simulate_blockchain_def simulate_swarm_def simulate_cleanup_def
  simulate_reactor_def DEFAULT_SIMULATION_REGISTRY_FILEPATH_def
  spawn_ursula_def reactor_run_def try_finally_def randint_def os_urandom_def os_remove_def
  os_kill_def ether_airdrop_def arm_def deploy_def fund_def token_airdrop_def
  registry_commit_def initialize_stake_def commit_stake_def ursula_template_def


lemma kill_requests_append:
  "kill_requests (xs @ ys) = kill_requests xs @ kill_requests ys"
  by (induction xs rule: kill_requests.induct) simp_all

lemma spawned_pids_append:
  "spawned_pids (xs @ ys) = spawned_pids xs @ spawned_pids ys"
  by (induction xs rule: spawned_pids.induct) simp_all

subsection \<open>Deployment\<close>

text \<open>With accounts on the chain and the deployment confirmed, a start that is not
  federated-only deploys and airdrops in order and then fails at line 477.\<close>

lemma simulate_start_deploys_then_fails:
  assumes "eth_accounts (ledger w) = origin # everyone_else"
    and "fst (read_confirm (inputs w)) = Some True"
  shows "\<exists>w1 s1 s2. simulate cfg c ''start'' nodes False geth w = (Inl NameError, w1)
     \<and> trace w1 = trace w @
         [EtherAirdrop (DEVELOPMENT_ETH_AIRDROP_AMOUNT c),
          Arm (NucypherTokenDeployer origin),
          Deploy (NucypherTokenDeployer origin),
          Arm (MinerEscrowDeployer NucypherTokenAgent origin s1),
          Deploy (MinerEscrowDeployer NucypherTokenAgent origin s1),
          Arm (PolicyManagerDeployer (MinerAgent NucypherTokenAgent) origin s2),
          Deploy (PolicyManagerDeployer (MinerAgent NucypherTokenAgent) origin s2),
          TokenAirdrop NucypherTokenAgent origin everyone_else
            (DEVELOPMENT_TOKEN_AIRDROP_AMOUNT c)]
     \<and> files w1 = files w"
  using assms
  by (auto simp: simulate_def simulate_blockchain_def Let_def io_defs ether_airdrop_def arm_def
       deploy_def os_urandom_def token_airdrop_def DEFAULT_SIMULATION_REGISTRY_FILEPATH_def
       split: prod.splits option.splits)

text \<open>
  Claim C8, evaluated on the code. A start that is not federated-only, on the chain with
  the origin and one more account, with the deployment confirmed: the three contracts
  are armed and deployed in the order token, escrow (from the token agent), policy
  manager (from the miner agent), and the tokens are airdropped to the account that is
  not the origin. Then line 477 reads \<^verbatim>\<open>DEFAULT_SIMULATION_REGISTRY_FILEPATH\<close>, which
  nothing binds: the command ends with a \<^verbatim>\<open>NameError\<close>, \<^verbatim>\<open>registry.commit\<close> is not
  called and no file is written.
\<close>

theorem simulate_start_never_commits_registry:
  "fst (simulate example_config example_constants ''start'' 2 False False
          (example_world example_ledger [Confirm True, Confirm True])) = Inl NameError
   \<and> trace (snd (simulate example_config example_constants ''start'' 2 False False
          (example_world example_ledger [Confirm True, Confirm True])))
     = [EtherAirdrop 7,
        Arm (NucypherTokenDeployer ''0xO''),
        Deploy (NucypherTokenDeployer ''0xO''),
        Arm (MinerEscrowDeployer NucypherTokenAgent ''0xO'' [0, 0]),
        Deploy (MinerEscrowDeployer NucypherTokenAgent ''0xO'' [0, 0]),
        Arm (PolicyManagerDeployer (MinerAgent NucypherTokenAgent) ''0xO'' [0, 0]),
        Deploy (PolicyManagerDeployer (MinerAgent NucypherTokenAgent) ''0xO'' [0, 0]),
        TokenAirdrop NucypherTokenAgent ''0xO'' [''0xA''] 100]
   \<and> files (snd (simulate example_config example_constants ''start'' 2 False False
          (example_world example_ledger [Confirm True, Confirm True]))) = {}"
  by (simp add: sim_defs io_defs example_defs Let_def upt_rec)

text \<open>
  On every input, a start ends with an exception before the swarm loop has spawned
  anything: outside federated-only mode the connection and deployment part never
  returns (no account, a declined question, or the unbound name at line 477), and in
  federated-only mode the loop cannot iterate over \<^verbatim>\<open>NotImplemented\<close>.
\<close>

lemma simulate_blockchain_fails:
  "\<exists>e w'. simulate_blockchain c nodes geth w = (Inl e, w')
     \<and> spawned_pids (trace w') = spawned_pids (trace w) \<and> files w' = files w"
  by (auto simp: simulate_blockchain_def Let_def io_defs ether_airdrop_def arm_def
       deploy_def os_urandom_def token_airdrop_def DEFAULT_SIMULATION_REGISTRY_FILEPATH_def
       spawned_pids_append
       split: list.splits prod.splits option.splits)

lemma simulate_start_fails_before_swarm:
  "\<exists>e w'. simulate cfg c ''start'' nodes fed geth w = (Inl e, w')
     \<and> spawned_pids (trace w') = spawned_pids (trace w) \<and> files w' = files w"
proof (cases fed)
  case True
  then show ?thesis
    by (simp add: simulate_def simulate_swarm_def bind_io_def return_io_def raise_io_def)
next
  case False
  from simulate_blockchain_fails [of c nodes geth w]
  obtain e w' where "simulate_blockchain c nodes geth w = (Inl e, w')"
    and "spawned_pids (trace w') = spawned_pids (trace w)" and "files w' = files w"
    by blast
  with False show ?thesis
    by (simp add: simulate_def bind_io_def)
qed

subsection \<open>The swarm\<close>









subsection \<open>The cleanup\<close>


text \<open>On every input: with the configuration that \<^verbatim>\<open>NucypherClickConfig.__init__\<close>
  builds, lines 559 to 572 end with an exception after the run of the reactor as the
  only call, whatever was spawned and however the reactor ends.\<close>

lemma simulate_reactor_no_cleanup:
  "simulate_reactor (NucypherClickConfig accs) fed w
     = (Inl (if fed then AttributeError else NameError), w\<lparr>trace := trace w @ [ReactorRun]\<rparr>)"
  by (simp add: simulate_reactor_def simulate_cleanup_def reactor_run_def try_finally_def
        io_defs NucypherClickConfig_def DEFAULT_SIMULATION_REGISTRY_FILEPATH_def
        split: option.splits)

end
